theory Spec2Isabelle
  imports Complex_Main
begin

section \<open>Windowed list: shared state of the two hooks\<close>

text \<open>
  \<^verbatim>\<open>src/examples/Simple.tsx\<close> holds two variants of the hook \<^verbatim>\<open>useFixedSizeList\<close>:
  the dynamic-height one (a per-key measurement cache and a linear scan) and the
  fixed-height one (a closed form). Both are embedded here.

  JavaScript numbers that carry pixels (\<^verbatim>\<open>scrollTop\<close>, \<^verbatim>\<open>listHeight\<close>, heights, offsets)
  are modelled as \<^typ>\<open>real\<close>: finite values with exact arithmetic. Indices and the
  overscan are \<^typ>\<open>int\<close> (the scan uses the sentinel \<open>-1\<close>), and \<^verbatim>\<open>itemsCount\<close>, which is
  an array length at the call sites and the argument of \<^verbatim>\<open>Array(itemsCount)\<close>, is a
  \<^typ>\<open>nat\<close>.
\<close>

definition DEFAULT_OVERSCAN :: int where
  "DEFAULT_OVERSCAN = 3"

definition DEFAULT_SCROLLING_DELAY :: nat where
  "DEFAULT_SCROLLING_DELAY = 100"

text \<open>A destructured prop with a default, as in \<^verbatim>\<open>overscan = DEFAULT_OVERSCAN\<close>.\<close>

definition withDefault :: "'a \<Rightarrow> 'a option \<Rightarrow> 'a" where
  "withDefault d x = (case x of None \<Rightarrow> d | Some v \<Rightarrow> v)"

text \<open>The scroll container as the effects read it: its \<^verbatim>\<open>scrollTop\<close> and the block size
  of its border box.\<close>

record HTMLElement =
  el_scrollTop :: real
  el_blockSize :: real

text \<open>The \<^verbatim>\<open>useState\<close> cells common to both variants, with their initial values.\<close>

record HookState =
  st_scrollTop :: real
  st_listHeight :: real
  st_isScrolling :: bool

definition initialState :: HookState where
  "initialState = \<lparr>st_scrollTop = 0, st_listHeight = 0, st_isScrolling = False\<rparr>"

text \<open>
  The three effects start with \<^verbatim>\<open>const scrollElement = getScrollElement();
  if (!scrollElement) return;\<close>. What an effect registers on the element is recorded as a
  list of subscriptions; the scroll effect also calls \<^verbatim>\<open>handleScroll()\<close> once.
\<close>

datatype Subscription = ResizeObserved | ScrollListener | ScrollingListener

definition resizeEffect :: "HTMLElement option \<Rightarrow> Subscription list" where
  "resizeEffect scrollElement =
     (case scrollElement of None \<Rightarrow> [] | Some el \<Rightarrow> [ResizeObserved])"

definition scrollEffect ::
  "HTMLElement option \<Rightarrow> 'a HookState_scheme \<Rightarrow> 'a HookState_scheme \<times> Subscription list" where
  "scrollEffect scrollElement st =
     (case scrollElement of
        None \<Rightarrow> (st, [])
      | Some el \<Rightarrow> (st\<lparr>st_scrollTop := el_scrollTop el\<rparr>, [ScrollListener]))"

definition scrollingEffect :: "HTMLElement option \<Rightarrow> Subscription list" where
  "scrollingEffect scrollElement =
     (case scrollElement of None \<Rightarrow> [] | Some el \<Rightarrow> [ScrollingListener])"

definition runEffects ::
  "HTMLElement option \<Rightarrow> 'a HookState_scheme \<Rightarrow> 'a HookState_scheme \<times> Subscription list" where
  "runEffects scrollElement st =
     (let subs1 = resizeEffect scrollElement;
          (st', subs2) = scrollEffect scrollElement st;
          subs3 = scrollingEffect scrollElement
      in (st', subs1 @ subs2 @ subs3))"

text \<open>The callbacks the subscriptions deliver: a resize entry and a scroll event.\<close>

definition onResize :: "real \<Rightarrow> 'a HookState_scheme \<Rightarrow> 'a HookState_scheme" where
  "onResize h st = st\<lparr>st_listHeight := h\<rparr>"

definition handleScroll :: "HTMLElement \<Rightarrow> 'a HookState_scheme \<Rightarrow> 'a HookState_scheme" where
  "handleScroll el st = st\<lparr>st_scrollTop := el_scrollTop el, st_isScrolling := True\<rparr>"


section \<open>Fixed-height variant\<close>

record FixedProps =
  fx_itemsCount :: nat
  fx_itemHeight :: real
  fx_overscan :: "int option"
  fx_scrollingDelay :: "nat option"
  fx_getScrollElement :: "HTMLElement option"

record FixedItem =
  fx_index :: int
  fx_offsetTop :: real

record FixedRange =
  fx_virtualItems :: "FixedItem list"
  fx_startIndex :: int
  fx_endIndex :: int

record FixedResult = FixedRange +
  fx_totalHeight :: real
  fx_isScrolling :: bool

text \<open>\<^verbatim>\<open>for (let index = startIndex; index <= endIndex; index++) virtualItems.push(...)\<close>\<close>

function pushItems :: "real \<Rightarrow> int \<Rightarrow> int \<Rightarrow> FixedItem list \<Rightarrow> FixedItem list" where
  "pushItems itemHeight index endIndex virtualItems =
     (if index \<le> endIndex
      then pushItems itemHeight (index + 1) endIndex
             (virtualItems @ [\<lparr>fx_index = index, fx_offsetTop = of_int index * itemHeight\<rparr>])
      else virtualItems)"
  by pat_completeness auto
termination
  by (relation "measure (\<lambda>(h, index, endIndex, acc). nat (endIndex + 1 - index))") auto

declare pushItems.simps [simp del]

text \<open>The \<^verbatim>\<open>useMemo\<close> callback, as a function of its dependency list.\<close>

definition fixedRange :: "real \<Rightarrow> nat \<Rightarrow> real \<Rightarrow> real \<Rightarrow> int \<Rightarrow> FixedRange" where
  "fixedRange itemHeight itemsCount listHeight scrollTop overscan =
     (let rangeStart = scrollTop;
          rangeEnd = scrollTop + listHeight;
          startIndex0 = \<lfloor>rangeStart / itemHeight\<rfloor>;
          endIndex0 = \<lceil>rangeEnd / itemHeight\<rceil>;
          startIndex = max 0 (startIndex0 - overscan);
          endIndex = min (int itemsCount - 1) (endIndex0 + overscan);
          virtualItems = pushItems itemHeight startIndex endIndex []
      in \<lparr>fx_virtualItems = virtualItems, fx_startIndex = startIndex, fx_endIndex = endIndex\<rparr>)"

definition useFixedSizeList_fixed :: "FixedProps \<Rightarrow> HookState \<Rightarrow> FixedResult" where
  "useFixedSizeList_fixed props st =
     (let overscan = withDefault DEFAULT_OVERSCAN (fx_overscan props);
          r = fixedRange (fx_itemHeight props) (fx_itemsCount props) (st_listHeight st)
                (st_scrollTop st) overscan;
          totalHeight = fx_itemHeight props * of_nat (fx_itemsCount props)
      in \<lparr>fx_virtualItems = fx_virtualItems r, fx_startIndex = fx_startIndex r,
          fx_endIndex = fx_endIndex r, fx_totalHeight = totalHeight,
          fx_isScrolling = st_isScrolling st\<rparr>)"


section \<open>Dynamic-height variant\<close>

text \<open>
  \<^verbatim>\<open>type Key = string | number\<close>. A key is used as a property name of the measurement
  cache, a plain object, which turns a number key into its string form; a key is modelled
  as the property name it denotes.
\<close>

type_synonym Key = string

datatype error = Error string | TypeError string

record UseFixedSizeListProps =
  itemsCount :: nat
  itemHeight :: "(int \<Rightarrow> real) option"
  estimateItemHeight :: "(int \<Rightarrow> real) option"
  getItemKey :: "int \<Rightarrow> Key"
  overscan :: "int option"
  scrollingDelay :: "nat option"
  getScrollElement :: "HTMLElement option"

definition validateProps :: "UseFixedSizeListProps \<Rightarrow> error + unit" where
  "validateProps props =
     (if itemHeight props = None \<and> estimateItemHeight props = None
      then Inl (Error ''You must pass either itemHeight or estimateItemHeight props'')
      else Inr ())"

record DynState = HookState +
  st_measurementCache :: "Key \<rightharpoonup> real"

definition initialDynState :: DynState where
  "initialDynState =
     \<lparr>st_scrollTop = 0, st_listHeight = 0, st_isScrolling = False,
      st_measurementCache = Map.empty\<rparr>"

record Row =
  key :: Key
  index :: int
  height :: real
  offsetTop :: real

text \<open>The variables of the scan, which are also the fields of what the callback returns.\<close>

record Scan =
  startIndex :: int
  endIndex :: int
  totalHeight :: real
  allItems :: "Row option list"

record Window = Scan +
  virtualItems :: "Row option list"

record Result = Window +
  isScrolling :: bool

text \<open>
  \<^verbatim>\<open>getItemHeight\<close>: the fixed height function first, then the cache entry of the item's
  key, then the estimator. \<^verbatim>\<open>estimateItemHeight!(index)\<close> on an absent estimator is a call
  of \<^verbatim>\<open>undefined\<close>, a TypeError.
\<close>

definition getItemHeight ::
  "UseFixedSizeListProps \<Rightarrow> (Key \<rightharpoonup> real) \<Rightarrow> int \<Rightarrow> error + real" where
  "getItemHeight props measurementCache i =
     (case itemHeight props of
        Some f \<Rightarrow> Inr (f i)
      | None \<Rightarrow>
          (case measurementCache (getItemKey props i) of
             Some h \<Rightarrow> Inr h
           | None \<Rightarrow>
               (case estimateItemHeight props of
                  Some est \<Rightarrow> Inr (est i)
                | None \<Rightarrow> Inl (TypeError ''estimateItemHeight is not a function''))))"

text \<open>The body of the scan loop for row \<open>i\<close>, once its key \<open>k\<close> and height \<open>h\<close> are known.\<close>

definition scanRow ::
  "nat \<Rightarrow> int \<Rightarrow> real \<Rightarrow> real \<Rightarrow> nat \<Rightarrow> Key \<Rightarrow> real \<Rightarrow> Scan \<Rightarrow> Scan" where
  "scanRow n ov rangeStart rangeEnd i k h sc =
     (let row = \<lparr>key = k, index = int i, height = h, offsetTop = totalHeight sc\<rparr>;
          sc1 = sc\<lparr>totalHeight := totalHeight sc + height row,
                  allItems := (allItems sc)[i := Some row]\<rparr>;
          sc2 = (if startIndex sc1 = - 1 \<and> offsetTop row + height row > rangeStart
                 then sc1\<lparr>startIndex := max 0 (int i - ov)\<rparr> else sc1)
      in (if endIndex sc2 = - 1 \<and> offsetTop row + height row \<ge> rangeEnd
          then sc2\<lparr>endIndex := min (int n - 1) (int i + ov)\<rparr> else sc2))"

text \<open>\<^verbatim>\<open>for (let i = 0; i < itemsCount; i++) { ... }\<close>\<close>

function scanFrom ::
  "UseFixedSizeListProps \<Rightarrow> (Key \<rightharpoonup> real) \<Rightarrow> int \<Rightarrow> real \<Rightarrow> real \<Rightarrow> nat \<Rightarrow> Scan
     \<Rightarrow> error + Scan" where
  "scanFrom props measurementCache ov rangeStart rangeEnd i sc =
     (if i < itemsCount props
      then (case getItemHeight props measurementCache (int i) of
              Inl e \<Rightarrow> Inl e
            | Inr h \<Rightarrow>
                scanFrom props measurementCache ov rangeStart rangeEnd (Suc i)
                  (scanRow (itemsCount props) ov rangeStart rangeEnd i
                     (getItemKey props (int i)) h sc))
      else Inr sc)"
  by pat_completeness auto
termination
  by (relation "measure (\<lambda>(props, c, ov, rs, re, i, sc). itemsCount props - i)") auto

declare scanFrom.simps [simp del]

text \<open>
  \<^verbatim>\<open>Array.prototype.slice(start, end)\<close>: a negative bound counts from the end of the
  array, both bounds are clamped to the array, and the result is empty when the start is
  not below the end.
\<close>

definition Array_slice :: "'a list \<Rightarrow> int \<Rightarrow> int \<Rightarrow> 'a list" where
  "Array_slice xs start end =
     (let len = int (length xs);
          k = (if start < 0 then max (len + start) 0 else min start len);
          final = (if end < 0 then max (len + end) 0 else min end len)
      in take (nat (final - k)) (drop (nat k) xs))"

text \<open>The \<^verbatim>\<open>useMemo\<close> callback of the dynamic variant, as a function of its dependencies.\<close>

definition computeWindow ::
  "UseFixedSizeListProps \<Rightarrow> (Key \<rightharpoonup> real) \<Rightarrow> real \<Rightarrow> real \<Rightarrow> int \<Rightarrow> error + Window" where
  "computeWindow props measurementCache scrollTop listHeight ov =
     (let rangeStart = scrollTop;
          rangeEnd = scrollTop + listHeight;
          sc0 = \<lparr>startIndex = - 1, endIndex = - 1, totalHeight = 0,
                 allItems = replicate (itemsCount props) None\<rparr>
      in case scanFrom props measurementCache ov rangeStart rangeEnd 0 sc0 of
           Inl e \<Rightarrow> Inl e
         | Inr sc \<Rightarrow>
             Inr \<lparr>startIndex = startIndex sc, endIndex = endIndex sc,
                  totalHeight = totalHeight sc, allItems = allItems sc,
                  virtualItems = Array_slice (allItems sc) (startIndex sc) (endIndex sc + 1)\<rparr>)"

definition useFixedSizeList :: "UseFixedSizeListProps \<Rightarrow> DynState \<Rightarrow> error + Result" where
  "useFixedSizeList props st =
     (case validateProps props of
        Inl e \<Rightarrow> Inl e
      | Inr u \<Rightarrow>
          (case computeWindow props (st_measurementCache st) (st_scrollTop st)
                  (st_listHeight st)
                  (withDefault DEFAULT_OVERSCAN (overscan props)) of
             Inl e \<Rightarrow> Inl e
           | Inr w \<Rightarrow>
               Inr \<lparr>startIndex = startIndex w, endIndex = endIndex w,
                    totalHeight = totalHeight w, allItems = allItems w,
                    virtualItems = virtualItems w, isScrolling = st_isScrolling st\<rparr>))"


subsection \<open>Measurement reports\<close>

text \<open>
  A rendered element as \<^verbatim>\<open>measureElement\<close> reads it: its \<^verbatim>\<open>data-index\<close> attribute
  (absent, or a string) and the height of its bounding rectangle.
\<close>

record Element =
  dataIndex :: "string option"
  rectHeight :: real

text \<open>
  \<^verbatim>\<open>parseInt(s, 10)\<close>: leading white space is skipped, one sign is read, then the longest
  run of decimal digits; no digit at all gives NaN, here \<open>None\<close>. Characters are bytes, so
  the white space is the ASCII part of what JavaScript skips, and the value is the exact
  integer (JavaScript rounds it to a double).
\<close>

definition isWhiteSpace :: "char \<Rightarrow> bool" where
  "isWhiteSpace c \<longleftrightarrow> c \<in> set [CHR '' '', CHR 0x09, CHR 0x0A, CHR 0x0B, CHR 0x0C, CHR 0x0D]"

definition isDigit :: "char \<Rightarrow> bool" where
  "isDigit c \<longleftrightarrow> c \<in> set ''0123456789''"

definition digitValue :: "char \<Rightarrow> nat" where
  "digitValue c = of_char c - of_char CHR ''0''"

definition parseInt :: "string \<Rightarrow> int option" where
  "parseInt s =
     (let t = dropWhile isWhiteSpace s;
          (sgn, u) = (case t of
                        [] \<Rightarrow> (1, t)
                      | c # r \<Rightarrow> if c = CHR ''-'' then (- 1, r)
                                else if c = CHR ''+'' then (1, r) else (1, t));
          ds = takeWhile isDigit u
      in if ds = [] then None
         else Some (sgn * int (foldl (\<lambda>a c. 10 * a + digitValue c) 0 ds)))"

text \<open>
  \<^verbatim>\<open>measureElement\<close> returns the new state (\<^verbatim>\<open>setMeasurementCache\<close>) and what it wrote
  with \<^verbatim>\<open>console.error\<close>.
\<close>

definition measureElement ::
  "UseFixedSizeListProps \<Rightarrow> Element option \<Rightarrow> DynState \<Rightarrow> DynState \<times> string list" where
  "measureElement props element st =
     (case element of
        None \<Rightarrow> (st, [])
      | Some el \<Rightarrow>
          (let indexAttribute = (case dataIndex el of None \<Rightarrow> [] | Some a \<Rightarrow> a)
           in case parseInt indexAttribute of
                None \<Rightarrow>
                  (st, [''dynamic element must have a valid 'data-index' attribute''])
              | Some i \<Rightarrow>
                  (st\<lparr>st_measurementCache :=
                        (st_measurementCache st)(getItemKey props i \<mapsto> rectHeight el)\<rparr>,
                   [])))"

text \<open>What makes the hook compute its window again without a measurement: a scroll event
  and a resize entry.\<close>

datatype Event = ScrollEvent HTMLElement | ResizeEvent real

fun dispatch :: "Event \<Rightarrow> 'a HookState_scheme \<Rightarrow> 'a HookState_scheme" where
  "dispatch (ScrollEvent el) st = handleScroll el st"
| "dispatch (ResizeEvent h) st = onResize h st"


section \<open>The scan, row by row\<close>

text \<open>
  Reference functions for the proofs, over a height function \<open>h\<close> on row numbers:
  the sum of the heights of the rows before row \<open>i\<close>, the row descriptor of row \<open>j\<close>, and
  the values of the scan's variables after \<open>k\<close> rows.
\<close>

definition offsetOf :: "(nat \<Rightarrow> real) \<Rightarrow> nat \<Rightarrow> real" where
  "offsetOf h i = (\<Sum>j<i. h j)"

definition rowAt :: "(int \<Rightarrow> Key) \<Rightarrow> (nat \<Rightarrow> real) \<Rightarrow> nat \<Rightarrow> Row" where
  "rowAt keyOf h j =
     \<lparr>key = keyOf (int j), index = int j, height = h j, offsetTop = offsetOf h j\<rparr>"

primrec startAt :: "int \<Rightarrow> real \<Rightarrow> (nat \<Rightarrow> real) \<Rightarrow> nat \<Rightarrow> int" where
  "startAt ov rs h 0 = - 1"
| "startAt ov rs h (Suc k) =
     (if startAt ov rs h k = - 1 \<and> offsetOf h k + h k > rs
      then max 0 (int k - ov) else startAt ov rs h k)"

primrec endAt :: "nat \<Rightarrow> int \<Rightarrow> real \<Rightarrow> (nat \<Rightarrow> real) \<Rightarrow> nat \<Rightarrow> int" where
  "endAt n ov re h 0 = - 1"
| "endAt n ov re h (Suc k) =
     (if endAt n ov re h k = - 1 \<and> offsetOf h k + h k \<ge> re
      then min (int n - 1) (int k + ov) else endAt n ov re h k)"

definition scanAt ::
  "nat \<Rightarrow> int \<Rightarrow> real \<Rightarrow> real \<Rightarrow> (int \<Rightarrow> Key) \<Rightarrow> (nat \<Rightarrow> real) \<Rightarrow> nat \<Rightarrow> Scan" where
  "scanAt n ov rs re keyOf h k =
     \<lparr>startIndex = startAt ov rs h k, endIndex = endAt n ov re h k,
      totalHeight = offsetOf h k,
      allItems = map (\<lambda>j. Some (rowAt keyOf h j)) [0..<k] @ replicate (n - k) None\<rparr>"

text \<open>The height of row \<open>j\<close> in dynamic mode, in the words of the specification: the cached
  value of the row's key if there is one, else the estimate.\<close>

definition cachedOrEstimate ::
  "(int \<Rightarrow> Key) \<Rightarrow> (Key \<rightharpoonup> real) \<Rightarrow> (int \<Rightarrow> real) \<Rightarrow> nat \<Rightarrow> real" where
  "cachedOrEstimate keyOf cache est j =
     (case cache (keyOf (int j)) of Some h \<Rightarrow> h | None \<Rightarrow> est (int j))"


section \<open>Fixed-height variant: properties\<close>

text \<open>
  Division by \<^verbatim>\<open>itemHeight = 0\<close> gives \<^verbatim>\<open>Infinity\<close> or \<^verbatim>\<open>NaN\<close> in JavaScript, which \<^typ>\<open>real\<close>
  does not have: the properties of the fixed-height variant are stated for a positive
  \<^verbatim>\<open>itemHeight\<close>.
\<close>

lemma pushItems_upto:
  "pushItems h i e acc =
     acc @ map (\<lambda>k. \<lparr>fx_index = k, fx_offsetTop = of_int k * h\<rparr>) [i..e]"
proof (induction h i e acc rule: pushItems.induct)
  case (1 h i e acc)
  show ?case
  proof (cases "i \<le> e")
    case True
    then have "[i..e] = i # [i + 1..e]"
      by (simp add: upto_rec1)
    with True "1" show ?thesis
      by (subst pushItems.simps) simp
  next
    case False
    then show ?thesis
      by (subst pushItems.simps) simp
  qed
qed

lemma fixedRange_startIndex:
  "fx_startIndex (fixedRange h n v s ov) = max 0 (\<lfloor>s / h\<rfloor> - ov)"
  by (simp add: fixedRange_def Let_def)

lemma fixedRange_endIndex:
  "fx_endIndex (fixedRange h n v s ov) = min (int n - 1) (\<lceil>(s + v) / h\<rceil> + ov)"
  by (simp add: fixedRange_def Let_def)

lemma fixedRange_virtualItems:
  "fx_virtualItems (fixedRange h n v s ov) =
     map (\<lambda>k. \<lparr>fx_index = k, fx_offsetTop = of_int k * h\<rparr>)
       [max 0 (\<lfloor>s / h\<rfloor> - ov)..min (int n - 1) (\<lceil>(s + v) / h\<rceil> + ov)]"
  by (simp add: fixedRange_def Let_def pushItems_upto)

lemma hook_fixed_fields:
  "fx_startIndex (useFixedSizeList_fixed props st) =
     fx_startIndex (fixedRange (fx_itemHeight props) (fx_itemsCount props) (st_listHeight st)
        (st_scrollTop st) (withDefault DEFAULT_OVERSCAN (fx_overscan props)))"
  "fx_endIndex (useFixedSizeList_fixed props st) =
     fx_endIndex (fixedRange (fx_itemHeight props) (fx_itemsCount props) (st_listHeight st)
        (st_scrollTop st) (withDefault DEFAULT_OVERSCAN (fx_overscan props)))"
  "fx_virtualItems (useFixedSizeList_fixed props st) =
     fx_virtualItems (fixedRange (fx_itemHeight props) (fx_itemsCount props) (st_listHeight st)
        (st_scrollTop st) (withDefault DEFAULT_OVERSCAN (fx_overscan props)))"
  "fx_totalHeight (useFixedSizeList_fixed props st) =
     fx_itemHeight props * of_nat (fx_itemsCount props)"
  "fx_isScrolling (useFixedSizeList_fixed props st) = st_isScrolling st"
  by (simp_all add: useFixedSizeList_fixed_def Let_def)



text \<open>
  Claim C9. In fixed-height mode with a positive item height, and with the item count,
  the overscan and the viewport height held fixed, \<open>startIndex\<close> and \<open>endIndex\<close> do not
  decrease when the scroll offset grows.
\<close>

theorem C9_fixed_monotone:
  assumes "0 < fx_itemHeight props"
    and "st_listHeight st1 = st_listHeight st2"
    and "st_scrollTop st1 \<le> st_scrollTop st2"
  shows "fx_startIndex (useFixedSizeList_fixed props st1)
           \<le> fx_startIndex (useFixedSizeList_fixed props st2)
       \<and> fx_endIndex (useFixedSizeList_fixed props st1)
           \<le> fx_endIndex (useFixedSizeList_fixed props st2)"
proof -
  let ?h = "fx_itemHeight props"
  let ?v = "st_listHeight st2"
  from assms have "st_scrollTop st1 / ?h \<le> st_scrollTop st2 / ?h"
    by (simp add: divide_right_mono)
  then have fl: "\<lfloor>st_scrollTop st1 / ?h\<rfloor> \<le> \<lfloor>st_scrollTop st2 / ?h\<rfloor>"
    by (rule floor_mono)
  from assms have "(st_scrollTop st1 + ?v) / ?h \<le> (st_scrollTop st2 + ?v) / ?h"
    by (simp add: divide_right_mono)
  then have ce: "\<lceil>(st_scrollTop st1 + ?v) / ?h\<rceil> \<le> \<lceil>(st_scrollTop st2 + ?v) / ?h\<rceil>"
    by (rule ceiling_mono)
  from fl ce show ?thesis
    unfolding hook_fixed_fields fixedRange_startIndex fixedRange_endIndex assms(2)
    by linarith
qed

theorem C9_fixed_monotone_witness:
  "(0::real) < 40 \<and> (600::real) = 600 \<and> (0::real) \<le> 1000
   \<and> fx_startIndex (useFixedSizeList_fixed
        \<lparr>fx_itemsCount = 10000, fx_itemHeight = 40, fx_overscan = None,
         fx_scrollingDelay = None, fx_getScrollElement = None\<rparr>
        \<lparr>st_scrollTop = 0, st_listHeight = 600, st_isScrolling = False\<rparr>)
      \<le> fx_startIndex (useFixedSizeList_fixed
        \<lparr>fx_itemsCount = 10000, fx_itemHeight = 40, fx_overscan = None,
         fx_scrollingDelay = None, fx_getScrollElement = None\<rparr>
        \<lparr>st_scrollTop = 1000, st_listHeight = 600, st_isScrolling = True\<rparr>)
   \<and> fx_endIndex (useFixedSizeList_fixed
        \<lparr>fx_itemsCount = 10000, fx_itemHeight = 40, fx_overscan = None,
         fx_scrollingDelay = None, fx_getScrollElement = None\<rparr>
        \<lparr>st_scrollTop = 0, st_listHeight = 600, st_isScrolling = False\<rparr>)
      \<le> fx_endIndex (useFixedSizeList_fixed
        \<lparr>fx_itemsCount = 10000, fx_itemHeight = 40, fx_overscan = None,
         fx_scrollingDelay = None, fx_getScrollElement = None\<rparr>
        \<lparr>st_scrollTop = 1000, st_listHeight = 600, st_isScrolling = True\<rparr>)"
  using C9_fixed_monotone [of
      "\<lparr>fx_itemsCount = 10000, fx_itemHeight = 40, fx_overscan = None,
         fx_scrollingDelay = None, fx_getScrollElement = None\<rparr>"
      "\<lparr>st_scrollTop = 0, st_listHeight = 600, st_isScrolling = False\<rparr>"
      "\<lparr>st_scrollTop = 1000, st_listHeight = 600, st_isScrolling = True\<rparr>"]
  by simp


section \<open>Dynamic-height variant: the scan computes the row-by-row values\<close>

lemma offsetOf_Suc: "offsetOf h (Suc k) = offsetOf h k + h k"
  by (simp add: offsetOf_def)

lemma offsetOf_0: "offsetOf h 0 = 0"
  by (simp add: offsetOf_def)

lemma scanFrom_stop:
  "\<not> i < itemsCount props \<Longrightarrow> scanFrom props cache ov rs re i sc = Inr sc"
  by (subst scanFrom.simps) simp

lemma scanFrom_next:
  "i < itemsCount props \<Longrightarrow> getItemHeight props cache (int i) = Inr x \<Longrightarrow>
   scanFrom props cache ov rs re i sc =
     scanFrom props cache ov rs re (Suc i)
       (scanRow (itemsCount props) ov rs re i (getItemKey props (int i)) x sc)"
  by (subst scanFrom.simps) simp

lemma scanRow_scanAt:
  assumes "k < n"
  shows "scanRow n ov rs re k (keyOf (int k)) (h k) (scanAt n ov rs re keyOf h k) =
         scanAt n ov rs re keyOf h (Suc k)"
proof -
  from assms have rep:
    "replicate (n - k) (None :: Row option) = None # replicate (n - Suc k) None"
    by (metis Suc_diff_Suc replicate_Suc)
  have upd: "(map (\<lambda>j. Some (rowAt keyOf h j)) [0..<k] @ replicate (n - k) None)
               [k := Some (rowAt keyOf h k)] =
             map (\<lambda>j. Some (rowAt keyOf h j)) [0..<Suc k] @ replicate (n - Suc k) None"
    by (simp add: rep list_update_append)
  show ?thesis
    using upd by (simp add: scanRow_def scanAt_def Let_def offsetOf_Suc rowAt_def)
qed

lemma scanFrom_scanAt:
  assumes hs: "\<And>j. j < itemsCount props \<Longrightarrow> getItemHeight props cache (int j) = Inr (h j)"
    and le: "i \<le> itemsCount props"
  shows "scanFrom props cache ov rs re i
           (scanAt (itemsCount props) ov rs re (getItemKey props) h i) =
         Inr (scanAt (itemsCount props) ov rs re (getItemKey props) h (itemsCount props))"
  using le
proof (induction "itemsCount props - i" arbitrary: i)
  case 0
  then have "i = itemsCount props" by simp
  then show ?case by (simp add: scanFrom_stop)
next
  case (Suc d)
  then have lt: "i < itemsCount props" by simp
  have "scanFrom props cache ov rs re (Suc i)
           (scanAt (itemsCount props) ov rs re (getItemKey props) h (Suc i)) =
         Inr (scanAt (itemsCount props) ov rs re (getItemKey props) h (itemsCount props))"
    using Suc lt by (intro Suc.hyps(1)) simp_all
  then show ?case
    using lt by (simp add: scanFrom_next [OF lt hs [OF lt]] scanRow_scanAt)
qed

lemma scanAt_0:
  "scanAt n ov rs re keyOf h 0 =
     \<lparr>startIndex = - 1, endIndex = - 1, totalHeight = 0, allItems = replicate n None\<rparr>"
  by (simp add: scanAt_def offsetOf_0)

lemma computeWindow_scanAt:
  assumes hs: "\<And>j. j < itemsCount props \<Longrightarrow> getItemHeight props cache (int j) = Inr (h j)"
  shows "computeWindow props cache s v ov =
     Inr \<lparr>startIndex = startAt ov s h (itemsCount props),
          endIndex = endAt (itemsCount props) ov (s + v) h (itemsCount props),
          totalHeight = offsetOf h (itemsCount props),
          allItems = map (\<lambda>j. Some (rowAt (getItemKey props) h j)) [0..<itemsCount props],
          virtualItems =
            Array_slice (map (\<lambda>j. Some (rowAt (getItemKey props) h j)) [0..<itemsCount props])
              (startAt ov s h (itemsCount props))
              (endAt (itemsCount props) ov (s + v) h (itemsCount props) + 1)\<rparr>"
proof -
  have "scanFrom props cache ov s (s + v) 0
          (scanAt (itemsCount props) ov s (s + v) (getItemKey props) h 0) =
        Inr (scanAt (itemsCount props) ov s (s + v) (getItemKey props) h (itemsCount props))"
    by (rule scanFrom_scanAt) (simp_all add: hs)
  then show ?thesis
    by (simp add: computeWindow_def Let_def scanAt_0) (simp add: scanAt_def)
qed

lemma getItemHeight_dynamic:
  "itemHeight props = None \<Longrightarrow> estimateItemHeight props = Some est \<Longrightarrow>
   getItemHeight props cache (int j) = Inr (cachedOrEstimate (getItemKey props) cache est j)"
  by (simp add: getItemHeight_def cachedOrEstimate_def split: option.splits)

lemma getItemHeight_function:
  "itemHeight props = Some f \<Longrightarrow> getItemHeight props cache i = Inr (f i)"
  by (simp add: getItemHeight_def)

lemma useFixedSizeList_scanAt:
  assumes hs: "\<And>j. j < itemsCount props \<Longrightarrow>
                 getItemHeight props (st_measurementCache st) (int j) = Inr (h j)"
    and valid: "validateProps props = Inr ()"
  shows "useFixedSizeList props st =
     Inr \<lparr>startIndex = startAt (withDefault DEFAULT_OVERSCAN (overscan props))
                         (st_scrollTop st) h (itemsCount props),
          endIndex = endAt (itemsCount props) (withDefault DEFAULT_OVERSCAN (overscan props))
                       (st_scrollTop st + st_listHeight st) h (itemsCount props),
          totalHeight = offsetOf h (itemsCount props),
          allItems = map (\<lambda>j. Some (rowAt (getItemKey props) h j)) [0..<itemsCount props],
          virtualItems =
            Array_slice (map (\<lambda>j. Some (rowAt (getItemKey props) h j)) [0..<itemsCount props])
              (startAt (withDefault DEFAULT_OVERSCAN (overscan props))
                 (st_scrollTop st) h (itemsCount props))
              (endAt (itemsCount props) (withDefault DEFAULT_OVERSCAN (overscan props))
                 (st_scrollTop st + st_listHeight st) h (itemsCount props) + 1),
          isScrolling = st_isScrolling st\<rparr>"
  by (simp add: useFixedSizeList_def valid computeWindow_scanAt [OF hs])

lemma startAt_unset_iff:
  "startAt ov rs h k = - 1 \<longleftrightarrow> (\<forall>j<k. offsetOf h (Suc j) \<le> rs)"
proof (induction k)
  case 0
  show ?case by simp
next
  case (Suc k)
  have "max 0 (int k - ov) \<noteq> - 1" by simp
  with Suc show ?case
    by (auto simp: less_Suc_eq offsetOf_Suc not_less)
qed

lemma startAt_first:
  assumes "j < k" and "offsetOf h (Suc j) > rs" and "\<forall>l<j. offsetOf h (Suc l) \<le> rs"
  shows "startAt ov rs h k = max 0 (int j - ov)"
  using assms(1)
proof (induction k)
  case 0
  then show ?case by simp
next
  case (Suc k)
  show ?case
  proof (cases "j = k")
    case True
    with assms(3) have "startAt ov rs h k = - 1"
      by (simp add: startAt_unset_iff)
    with True assms(2) show ?thesis
      by (simp add: offsetOf_Suc)
  next
    case False
    with Suc have eq: "startAt ov rs h k = max 0 (int j - ov)" by simp
    then have "startAt ov rs h k \<noteq> - 1" by simp
    with eq show ?thesis by simp
  qed
qed

lemma endAt_unset_iff:
  assumes "0 \<le> ov" and "k \<le> n"
  shows "endAt n ov re h k = - 1 \<longleftrightarrow> (\<forall>j<k. offsetOf h (Suc j) < re)"
  using assms(2)
proof (induction k)
  case 0
  show ?case by simp
next
  case (Suc k)
  with assms(1) have "min (int n - 1) (int k + ov) \<noteq> - 1" by simp
  with Suc show ?case
    by (auto simp: less_Suc_eq offsetOf_Suc not_le)
qed

lemma endAt_first:
  assumes "0 \<le> ov" and "k \<le> n"
    and "j < k" and "offsetOf h (Suc j) \<ge> re" and "\<forall>l<j. offsetOf h (Suc l) < re"
  shows "endAt n ov re h k = min (int n - 1) (int j + ov)"
  using assms(2,3)
proof (induction k)
  case 0
  then show ?case by simp
next
  case (Suc k)
  show ?case
  proof (cases "j = k")
    case True
    with assms(1,5) Suc.prems have "endAt n ov re h k = - 1"
      by (simp add: endAt_unset_iff)
    with True assms(4) show ?thesis
      by (simp add: offsetOf_Suc)
  next
    case False
    with Suc have eq: "endAt n ov re h k = min (int n - 1) (int j + ov)" by simp
    from Suc.prems assms(1) have "min (int n - 1) (int j + ov) \<noteq> - 1" by simp
    with eq show ?thesis by simp
  qed
qed



section \<open>Dynamic-height variant: properties\<close>

subsection \<open>Total height and offsets\<close>

lemma validateProps_dynamic:
  "estimateItemHeight props = Some est \<Longrightarrow> validateProps props = Inr ()"
  by (simp add: validateProps_def)

lemma validateProps_function:
  "itemHeight props = Some f \<Longrightarrow> validateProps props = Inr ()"
  by (simp add: validateProps_def)



subsection \<open>Bounds of the returned range, in both variants\<close>





subsection \<open>No scroll element\<close>

lemma runEffects_None: "runEffects None st = (st, [])"
  by (simp add: runEffects_def resizeEffect_def scrollEffect_def scrollingEffect_def)

lemma Array_slice_prefix:
  assumes "0 \<le> e" and "e \<le> int (length xs)"
  shows "Array_slice xs 0 e = take (nat e) xs"
  using assms by (simp add: Array_slice_def Let_def)

text \<open>
  Claim C5, as amended. When \<^verbatim>\<open>getScrollElement\<close> yields no element, the effects register
  nothing and leave the state as it was, so that the scroll offset and the viewport
  height keep their initial value \<open>0\<close>; the hook does not fail and returns the window of
  that state. With a non-negative overscan this is \<open>startIndex = 0\<close>,
  \<open>endIndex = min(itemsCount - 1, overscan)\<close> and the rows \<open>0..endIndex\<close> (in fixed mode for a
  positive item height; in dynamic mode for at least one row and a positive estimate of
  row \<open>0\<close>), which is not an empty window when there is a row.
\<close>

theorem C5_no_scroll_element:
  "(fx_getScrollElement fprops = None \<and> 0 < fx_itemHeight fprops
      \<and> 0 \<le> withDefault DEFAULT_OVERSCAN (fx_overscan fprops)
     \<longrightarrow> runEffects (fx_getScrollElement fprops) initialState = (initialState, [])
       \<and> fx_startIndex (useFixedSizeList_fixed fprops
            (fst (runEffects (fx_getScrollElement fprops) initialState))) = 0
       \<and> fx_endIndex (useFixedSizeList_fixed fprops
            (fst (runEffects (fx_getScrollElement fprops) initialState))) =
           min (int (fx_itemsCount fprops) - 1) (withDefault DEFAULT_OVERSCAN (fx_overscan fprops))
       \<and> fx_virtualItems (useFixedSizeList_fixed fprops
            (fst (runEffects (fx_getScrollElement fprops) initialState))) =
           map (\<lambda>k. \<lparr>fx_index = k, fx_offsetTop = of_int k * fx_itemHeight fprops\<rparr>)
             [0..min (int (fx_itemsCount fprops) - 1)
                   (withDefault DEFAULT_OVERSCAN (fx_overscan fprops))])
   \<and> (getScrollElement props = None \<and> itemHeight props = None
      \<and> estimateItemHeight props = Some est \<and> 0 < est 0 \<and> 0 < itemsCount props
      \<and> 0 \<le> withDefault DEFAULT_OVERSCAN (overscan props)
     \<longrightarrow> runEffects (getScrollElement props) initialDynState = (initialDynState, [])
       \<and> (\<exists>r. useFixedSizeList props
                 (fst (runEffects (getScrollElement props) initialDynState)) = Inr r
            \<and> startIndex r = 0
            \<and> endIndex r =
                min (int (itemsCount props) - 1) (withDefault DEFAULT_OVERSCAN (overscan props))
            \<and> virtualItems r = take (nat (endIndex r + 1)) (allItems r)
            \<and> virtualItems r \<noteq> []))"
proof (rule conjI; rule impI)
  assume a: "fx_getScrollElement fprops = None \<and> 0 < fx_itemHeight fprops
      \<and> 0 \<le> withDefault DEFAULT_OVERSCAN (fx_overscan fprops)"
  then have max0: "max 0 (- withDefault DEFAULT_OVERSCAN (fx_overscan fprops)) = 0"
    by simp
  from a show "runEffects (fx_getScrollElement fprops) initialState = (initialState, [])
       \<and> fx_startIndex (useFixedSizeList_fixed fprops
            (fst (runEffects (fx_getScrollElement fprops) initialState))) = 0
       \<and> fx_endIndex (useFixedSizeList_fixed fprops
            (fst (runEffects (fx_getScrollElement fprops) initialState))) =
           min (int (fx_itemsCount fprops) - 1) (withDefault DEFAULT_OVERSCAN (fx_overscan fprops))
       \<and> fx_virtualItems (useFixedSizeList_fixed fprops
            (fst (runEffects (fx_getScrollElement fprops) initialState))) =
           map (\<lambda>k. \<lparr>fx_index = k, fx_offsetTop = of_int k * fx_itemHeight fprops\<rparr>)
             [0..min (int (fx_itemsCount fprops) - 1)
                   (withDefault DEFAULT_OVERSCAN (fx_overscan fprops))]"
    by (simp add: runEffects_None hook_fixed_fields fixedRange_startIndex
        fixedRange_endIndex fixedRange_virtualItems initialState_def max0)
next
  assume a: "getScrollElement props = None \<and> itemHeight props = None
      \<and> estimateItemHeight props = Some est \<and> 0 < est 0 \<and> 0 < itemsCount props
      \<and> 0 \<le> withDefault DEFAULT_OVERSCAN (overscan props)"
  let ?ov = "withDefault DEFAULT_OVERSCAN (overscan props)"
  let ?n = "itemsCount props"
  let ?h = "cachedOrEstimate (getItemKey props) (st_measurementCache initialDynState) est"
  have h0: "?h 0 = est 0"
    by (simp add: cachedOrEstimate_def initialDynState_def)
  have hs: "\<And>j. j < ?n \<Longrightarrow>
              getItemHeight props (st_measurementCache initialDynState) (int j) = Inr (?h j)"
    using a by (simp add: getItemHeight_dynamic)
  have valid: "validateProps props = Inr ()"
    using a by (simp add: validateProps_dynamic)
  have st: "startAt ?ov 0 ?h ?n = max 0 (int 0 - ?ov)"
    using a by (intro startAt_first) (simp_all add: offsetOf_def h0)
  have en: "endAt ?n ?ov 0 ?h ?n = min (int ?n - 1) (int 0 + ?ov)"
    using a by (intro endAt_first) (simp_all add: offsetOf_def h0)
  from a have st0: "startAt ?ov 0 ?h ?n = 0"
    unfolding st by simp
  have sl: "Array_slice (map (\<lambda>j. Some (rowAt (getItemKey props) ?h j)) [0..<?n]) 0
              (min (int ?n - 1) ?ov + 1) =
            take (nat (min (int ?n - 1) ?ov + 1))
              (map (\<lambda>j. Some (rowAt (getItemKey props) ?h j)) [0..<?n])"
    using a by (intro Array_slice_prefix) simp_all
  have ne: "take (nat (min (int ?n - 1) ?ov + 1))
              (map (\<lambda>j. Some (rowAt (getItemKey props) ?h j)) [0..<?n]) \<noteq> []"
  proof -
    from a have "\<not> min (int ?n - 1) ?ov + 1 \<le> 0" by linarith
    moreover from a have "0 < ?n" by simp
    ultimately show ?thesis by simp
  qed
  have init: "st_scrollTop initialDynState = 0" "st_listHeight initialDynState = 0"
    by (simp_all add: initialDynState_def)
  from a have eff: "runEffects (getScrollElement props) initialDynState = (initialDynState, [])"
    by (simp add: runEffects_None)
  have "\<exists>r. useFixedSizeList props initialDynState = Inr r
            \<and> startIndex r = 0
            \<and> endIndex r = min (int ?n - 1) ?ov
            \<and> virtualItems r = take (nat (endIndex r + 1)) (allItems r)
            \<and> virtualItems r \<noteq> []"
    using ne by (simp add: useFixedSizeList_scanAt [OF hs valid] init st0 en sl)
  with eff show "runEffects (getScrollElement props) initialDynState = (initialDynState, [])
       \<and> (\<exists>r. useFixedSizeList props
                 (fst (runEffects (getScrollElement props) initialDynState)) = Inr r
            \<and> startIndex r = 0
            \<and> endIndex r =
                min (int (itemsCount props) - 1) (withDefault DEFAULT_OVERSCAN (overscan props))
            \<and> virtualItems r = take (nat (endIndex r + 1)) (allItems r)
            \<and> virtualItems r \<noteq> [])"
    by simp
qed

theorem C5_no_scroll_element_counterexample:
  "fx_getScrollElement \<lparr>fx_itemsCount = 10000, fx_itemHeight = 40, fx_overscan = None,
         fx_scrollingDelay = None, fx_getScrollElement = None\<rparr> = None
   \<and> fx_virtualItems (useFixedSizeList_fixed
        \<lparr>fx_itemsCount = 10000, fx_itemHeight = 40, fx_overscan = None,
         fx_scrollingDelay = None, fx_getScrollElement = None\<rparr>
        (fst (runEffects None initialState))) =
      [\<lparr>fx_index = 0, fx_offsetTop = 0\<rparr>, \<lparr>fx_index = 1, fx_offsetTop = 40\<rparr>,
       \<lparr>fx_index = 2, fx_offsetTop = 80\<rparr>, \<lparr>fx_index = 3, fx_offsetTop = 120\<rparr>]
   \<and> fx_virtualItems (useFixedSizeList_fixed
        \<lparr>fx_itemsCount = 10000, fx_itemHeight = 40, fx_overscan = None,
         fx_scrollingDelay = None, fx_getScrollElement = None\<rparr>
        (fst (runEffects None initialState))) \<noteq> []"
  by (simp add: runEffects_None hook_fixed_fields fixedRange_virtualItems initialState_def
      withDefault_def DEFAULT_OVERSCAN_def upto_rec1)

theorem C5_no_scroll_element_witness:
  "fx_getScrollElement \<lparr>fx_itemsCount = 10000, fx_itemHeight = 40, fx_overscan = None,
         fx_scrollingDelay = None, fx_getScrollElement = None\<rparr> = None
   \<and> (0::real) < 40 \<and> 0 \<le> withDefault DEFAULT_OVERSCAN None
   \<and> fx_endIndex (useFixedSizeList_fixed
        \<lparr>fx_itemsCount = 10000, fx_itemHeight = 40, fx_overscan = None,
         fx_scrollingDelay = None, fx_getScrollElement = None\<rparr>
        (fst (runEffects None initialState))) = 3
   \<and> (\<exists>r. useFixedSizeList
        \<lparr>itemsCount = 3, itemHeight = None, estimateItemHeight = Some (\<lambda>i. 40),
         getItemKey = (\<lambda>i. if i = 0 then ''a'' else if i = 1 then ''b'' else ''c''),
         overscan = None, scrollingDelay = None, getScrollElement = None\<rparr>
        (fst (runEffects None initialDynState)) = Inr r
       \<and> startIndex r = 0 \<and> endIndex r = 2 \<and> virtualItems r \<noteq> [])"
proof -
  let ?P = "\<lparr>itemsCount = 3, itemHeight = None, estimateItemHeight = Some (\<lambda>i. 40),
      getItemKey = (\<lambda>i. if i = 0 then ''a'' else if i = 1 then ''b'' else ''c''),
      overscan = None, scrollingDelay = None, getScrollElement = None\<rparr>"
  let ?F = "\<lparr>fx_itemsCount = 10000, fx_itemHeight = 40, fx_overscan = None,
         fx_scrollingDelay = None, fx_getScrollElement = None\<rparr>"
  note inst = C5_no_scroll_element [of ?F ?P "\<lambda>i. 40"]
  have ov: "withDefault DEFAULT_OVERSCAN None = 3"
    by (simp add: withDefault_def DEFAULT_OVERSCAN_def)
  from inst have "fx_endIndex (useFixedSizeList_fixed ?F (fst (runEffects None initialState))) = 3"
    by (auto simp add: ov)
  moreover from inst have "\<exists>r. useFixedSizeList ?P (fst (runEffects None initialDynState)) = Inr r
       \<and> startIndex r = 0 \<and> endIndex r = 2 \<and> virtualItems r \<noteq> []"
    by (auto simp add: ov)
  ultimately show ?thesis by (simp add: ov)
qed

subsection \<open>Content that does not reach the end of the viewport\<close>

text \<open>
  Claim C2. The claim asks for \<open>endIndex = itemsCount - 1\<close> when no row reaches the end of
  the viewport, and for \<open>startIndex = 0\<close> when no row passes the scroll offset. The scan has
  no such defaults. For three rows of estimated height 40 in a viewport of 600 at scroll
  offset 0 the hook returns \<open>endIndex = -1\<close> and no virtual item (the fixed-height variant
  returns \<open>endIndex = 2\<close> and the three rows there); at scroll offset 120 it returns
  \<open>startIndex = -1\<close>.
\<close>

theorem C2_scan_leaves_sentinel:
  "useFixedSizeList
     \<lparr>itemsCount = 3, itemHeight = None, estimateItemHeight = Some (\<lambda>i. 40),
      getItemKey = (\<lambda>i. if i = 0 then ''a'' else if i = 1 then ''b'' else ''c''),
      overscan = None, scrollingDelay = None, getScrollElement = None\<rparr>
     \<lparr>st_scrollTop = 0, st_listHeight = 600, st_isScrolling = False,
      st_measurementCache = Map.empty\<rparr>
   = Inr \<lparr>startIndex = 0, endIndex = - 1, totalHeight = 120,
          allItems = [Some \<lparr>key = ''a'', index = 0, height = 40, offsetTop = 0\<rparr>,
                      Some \<lparr>key = ''b'', index = 1, height = 40, offsetTop = 40\<rparr>,
                      Some \<lparr>key = ''c'', index = 2, height = 40, offsetTop = 80\<rparr>],
          virtualItems = [], isScrolling = False\<rparr>
   \<and> fx_endIndex (useFixedSizeList_fixed
        \<lparr>fx_itemsCount = 3, fx_itemHeight = 40, fx_overscan = None,
         fx_scrollingDelay = None, fx_getScrollElement = None\<rparr>
        \<lparr>st_scrollTop = 0, st_listHeight = 600, st_isScrolling = False\<rparr>) = 2
   \<and> useFixedSizeList
     \<lparr>itemsCount = 3, itemHeight = None, estimateItemHeight = Some (\<lambda>i. 40),
      getItemKey = (\<lambda>i. if i = 0 then ''a'' else if i = 1 then ''b'' else ''c''),
      overscan = None, scrollingDelay = None, getScrollElement = None\<rparr>
     \<lparr>st_scrollTop = 120, st_listHeight = 600, st_isScrolling = False,
      st_measurementCache = Map.empty\<rparr>
   = Inr \<lparr>startIndex = - 1, endIndex = - 1, totalHeight = 120,
          allItems = [Some \<lparr>key = ''a'', index = 0, height = 40, offsetTop = 0\<rparr>,
                      Some \<lparr>key = ''b'', index = 1, height = 40, offsetTop = 40\<rparr>,
                      Some \<lparr>key = ''c'', index = 2, height = 40, offsetTop = 80\<rparr>],
          virtualItems = [], isScrolling = False\<rparr>"
  by code_simp

subsection \<open>Measurement reports and the height cache\<close>

lemma dispatch_cache: "st_measurementCache (dispatch ev st) = st_measurementCache st"
  by (cases ev) (simp_all add: handleScroll_def onResize_def)

lemma fold_dispatch_cache:
  "st_measurementCache (fold dispatch evs st) = st_measurementCache st"
  by (induction evs arbitrary: st) (simp_all add: dispatch_cache)

lemma measureElement_valid:
  assumes "dataIndex el = Some a" and "parseInt a = Some i"
  shows "measureElement props (Some el) st =
           (st\<lparr>st_measurementCache :=
                 (st_measurementCache st)(getItemKey props i \<mapsto> rectHeight el)\<rparr>, [])"
  using assms by (simp add: measureElement_def)


text \<open>
  Claim C6. In dynamic-height mode, after a measurement report for an element whose
  \<^verbatim>\<open>data-index\<close> reads as index \<open>i\<close> and whose measured height is \<open>H\<close>, \<^verbatim>\<open>getItemHeight(i)\<close>
  returns exactly \<open>H\<close>, not the estimate, also after any number of scroll and resize events,
  which make the hook compute its window again.
\<close>

theorem C6_measured_height_is_read_back:
  assumes "itemHeight props = None"
    and "dataIndex el = Some a" and "parseInt a = Some i"
  shows "getItemHeight props
           (st_measurementCache (fold dispatch evs (fst (measureElement props (Some el) st)))) i
         = Inr (rectHeight el)"
  using assms
  by (simp add: fold_dispatch_cache measureElement_valid getItemHeight_def)

theorem C6_measured_height_is_read_back_witness:
  "itemHeight \<lparr>itemsCount = 3, itemHeight = None, estimateItemHeight = Some (\<lambda>i. 40),
      getItemKey = (\<lambda>i. if i = 0 then ''a'' else if i = 1 then ''b'' else ''c''),
      overscan = None, scrollingDelay = None, getScrollElement = None\<rparr> = None
   \<and> parseInt ''1'' = Some 1
   \<and> getItemHeight
       \<lparr>itemsCount = 3, itemHeight = None, estimateItemHeight = Some (\<lambda>i. 40),
        getItemKey = (\<lambda>i. if i = 0 then ''a'' else if i = 1 then ''b'' else ''c''),
        overscan = None, scrollingDelay = None, getScrollElement = None\<rparr>
       (st_measurementCache
         (fold dispatch [ScrollEvent \<lparr>el_scrollTop = 200, el_blockSize = 600\<rparr>, ResizeEvent 500]
           (fst (measureElement
             \<lparr>itemsCount = 3, itemHeight = None, estimateItemHeight = Some (\<lambda>i. 40),
              getItemKey = (\<lambda>i. if i = 0 then ''a'' else if i = 1 then ''b'' else ''c''),
              overscan = None, scrollingDelay = None, getScrollElement = None\<rparr>
             (Some \<lparr>dataIndex = Some ''1'', rectHeight = 80\<rparr>) initialDynState)))) 1
     = Inr 80"
proof -
  have p: "parseInt ''1'' = Some 1"
    by (simp add: parseInt_def isWhiteSpace_def isDigit_def digitValue_def)
  show ?thesis
    using C6_measured_height_is_read_back [of
      "\<lparr>itemsCount = 3, itemHeight = None, estimateItemHeight = Some (\<lambda>i. 40),
        getItemKey = (\<lambda>i. if i = 0 then ''a'' else if i = 1 then ''b'' else ''c''),
        overscan = None, scrollingDelay = None, getScrollElement = None\<rparr>"
      "\<lparr>dataIndex = Some ''1'', rectHeight = 80\<rparr>" "''1''" 1
      "[ScrollEvent \<lparr>el_scrollTop = 200, el_blockSize = 600\<rparr>, ResizeEvent 500]"
      initialDynState] p
    by simp
qed

text \<open>
  Claim C7. \<^verbatim>\<open>validateProps\<close>, the first statement of the hook, raises its error (with the
  message naming the two props) exactly when neither \<^verbatim>\<open>itemHeight\<close> nor
  \<^verbatim>\<open>estimateItemHeight\<close> is supplied; the hook then fails with that error, and with at
  least one of the two supplied the hook returns a result.
\<close>

theorem C7_validateProps:
  "(validateProps props =
      Inl (Error ''You must pass either itemHeight or estimateItemHeight props'')
    \<longleftrightarrow> itemHeight props = None \<and> estimateItemHeight props = None)
   \<and> (validateProps props = Inr ()
    \<longleftrightarrow> \<not> (itemHeight props = None \<and> estimateItemHeight props = None))
   \<and> (useFixedSizeList props st =
      Inl (Error ''You must pass either itemHeight or estimateItemHeight props'')
    \<longleftrightarrow> itemHeight props = None \<and> estimateItemHeight props = None)
   \<and> ((\<exists>r. useFixedSizeList props st = Inr r)
    \<longleftrightarrow> \<not> (itemHeight props = None \<and> estimateItemHeight props = None))"
proof -
  have v1: "validateProps props =
      Inl (Error ''You must pass either itemHeight or estimateItemHeight props'')
    \<longleftrightarrow> itemHeight props = None \<and> estimateItemHeight props = None"
    by (simp add: validateProps_def)
  have v2: "validateProps props = Inr ()
    \<longleftrightarrow> \<not> (itemHeight props = None \<and> estimateItemHeight props = None)"
    by (simp add: validateProps_def)
  have ok: "\<exists>r. useFixedSizeList props st = Inr r"
    if "\<not> (itemHeight props = None \<and> estimateItemHeight props = None)"
  proof (cases "itemHeight props")
    case (Some f)
    have hs: "\<And>j. j < itemsCount props \<Longrightarrow>
                getItemHeight props (st_measurementCache st) (int j) = Inr (f (int j))"
      using Some by (simp add: getItemHeight_function)
    show ?thesis
      by (simp add: useFixedSizeList_scanAt [OF hs validateProps_function [OF Some]])
  next
    case None
    with that obtain est where est: "estimateItemHeight props = Some est" by auto
    have hs: "\<And>j. j < itemsCount props \<Longrightarrow>
                getItemHeight props (st_measurementCache st) (int j) =
                  Inr (cachedOrEstimate (getItemKey props) (st_measurementCache st) est j)"
      using None est by (simp add: getItemHeight_dynamic)
    show ?thesis
      by (simp add: useFixedSizeList_scanAt [OF hs validateProps_dynamic [OF est]])
  qed
  have bad: "useFixedSizeList props st =
      Inl (Error ''You must pass either itemHeight or estimateItemHeight props'')"
    if "itemHeight props = None \<and> estimateItemHeight props = None"
    using that by (simp add: useFixedSizeList_def validateProps_def)
  have u1: "useFixedSizeList props st =
      Inl (Error ''You must pass either itemHeight or estimateItemHeight props'')
    \<longleftrightarrow> itemHeight props = None \<and> estimateItemHeight props = None"
    using ok bad by (metis Inl_Inr_False)
  have u2: "(\<exists>r. useFixedSizeList props st = Inr r)
    \<longleftrightarrow> \<not> (itemHeight props = None \<and> estimateItemHeight props = None)"
    using ok bad by (metis Inl_Inr_False)
  from v1 v2 u1 u2 show ?thesis by blast
qed

theorem C7_validateProps_witness:
  "validateProps \<lparr>itemsCount = 3, itemHeight = None, estimateItemHeight = None,
      getItemKey = (\<lambda>i. ''a''), overscan = None, scrollingDelay = None,
      getScrollElement = None\<rparr>
     = Inl (Error ''You must pass either itemHeight or estimateItemHeight props'')
   \<and> validateProps \<lparr>itemsCount = 3, itemHeight = None, estimateItemHeight = Some (\<lambda>i. 40),
      getItemKey = (\<lambda>i. ''a''), overscan = None, scrollingDelay = None,
      getScrollElement = None\<rparr> = Inr ()
   \<and> (\<exists>r. useFixedSizeList \<lparr>itemsCount = 3, itemHeight = Some (\<lambda>i. 40),
      estimateItemHeight = None,
      getItemKey = (\<lambda>i. ''a''), overscan = None, scrollingDelay = None,
      getScrollElement = None\<rparr> initialDynState = Inr r)"
  using C7_validateProps [of "\<lparr>itemsCount = 3, itemHeight = None, estimateItemHeight = None,
      getItemKey = (\<lambda>i. ''a''), overscan = None, scrollingDelay = None,
      getScrollElement = None\<rparr>" initialDynState]
    C7_validateProps [of "\<lparr>itemsCount = 3, itemHeight = None,
      estimateItemHeight = Some (\<lambda>i. 40),
      getItemKey = (\<lambda>i. ''a''), overscan = None, scrollingDelay = None,
      getScrollElement = None\<rparr>" initialDynState]
    C7_validateProps [of "\<lparr>itemsCount = 3, itemHeight = Some (\<lambda>i. 40),
      estimateItemHeight = None,
      getItemKey = (\<lambda>i. ''a''), overscan = None, scrollingDelay = None,
      getScrollElement = None\<rparr>" initialDynState]
  by simp



text \<open>
  Claim C10. A valid measurement report for index \<open>i\<close> with measured height \<open>H\<close> changes the
  state only in the cache entry of \<open>getItemKey(i)\<close>: the new cache is the old one with that
  key set to \<open>H\<close>, whatever it held before, every other key keeps what it had, and the
  scroll offset, the viewport height and the scrolling flag are untouched. Of two reports
  for the same key the later one is the one that stays.
\<close>

theorem C10_report_changes_one_entry:
  assumes "dataIndex el = Some a" and "parseInt a = Some i"
  shows "st_measurementCache (fst (measureElement props (Some el) st)) (getItemKey props i)
           = Some (rectHeight el)
       \<and> (\<forall>k'. k' \<noteq> getItemKey props i \<longrightarrow>
             st_measurementCache (fst (measureElement props (Some el) st)) k'
               = st_measurementCache st k')
       \<and> st_scrollTop (fst (measureElement props (Some el) st)) = st_scrollTop st
       \<and> st_listHeight (fst (measureElement props (Some el) st)) = st_listHeight st
       \<and> st_isScrolling (fst (measureElement props (Some el) st)) = st_isScrolling st
       \<and> (\<forall>el2 a2 i2. dataIndex el2 = Some a2 \<and> parseInt a2 = Some i2
              \<and> getItemKey props i2 = getItemKey props i \<longrightarrow>
             st_measurementCache
               (fst (measureElement props (Some el2) (fst (measureElement props (Some el) st))))
               (getItemKey props i) = Some (rectHeight el2))"
  using assms by (simp add: measureElement_valid)

theorem C10_report_changes_one_entry_witness:
  "parseInt ''1'' = Some 1
   \<and> st_measurementCache (fst (measureElement
        \<lparr>itemsCount = 3, itemHeight = None, estimateItemHeight = Some (\<lambda>i. 40),
         getItemKey = (\<lambda>i. if i = 0 then ''a'' else if i = 1 then ''b'' else ''c''),
         overscan = None, scrollingDelay = None, getScrollElement = None\<rparr>
        (Some \<lparr>dataIndex = Some ''1'', rectHeight = 80\<rparr>)
        \<lparr>st_scrollTop = 0, st_listHeight = 600, st_isScrolling = False,
         st_measurementCache = [''a'' \<mapsto> 55, ''b'' \<mapsto> 70]\<rparr>)) ''b'' = Some 80
   \<and> ''a'' \<noteq> ''b''
   \<and> st_measurementCache (fst (measureElement
        \<lparr>itemsCount = 3, itemHeight = None, estimateItemHeight = Some (\<lambda>i. 40),
         getItemKey = (\<lambda>i. if i = 0 then ''a'' else if i = 1 then ''b'' else ''c''),
         overscan = None, scrollingDelay = None, getScrollElement = None\<rparr>
        (Some \<lparr>dataIndex = Some ''1'', rectHeight = 80\<rparr>)
        \<lparr>st_scrollTop = 0, st_listHeight = 600, st_isScrolling = False,
         st_measurementCache = [''a'' \<mapsto> 55, ''b'' \<mapsto> 70]\<rparr>)) ''a'' = Some 55"
proof -
  have p: "parseInt ''1'' = Some 1"
    by (simp add: parseInt_def isWhiteSpace_def isDigit_def digitValue_def)
  note inst = C10_report_changes_one_entry [of "\<lparr>dataIndex = Some ''1'', rectHeight = 80\<rparr>"
      "''1''" 1
      "\<lparr>itemsCount = 3, itemHeight = None, estimateItemHeight = Some (\<lambda>i. 40),
         getItemKey = (\<lambda>i. if i = 0 then ''a'' else if i = 1 then ''b'' else ''c''),
         overscan = None, scrollingDelay = None, getScrollElement = None\<rparr>"
      "\<lparr>st_scrollTop = 0, st_listHeight = 600, st_isScrolling = False,
         st_measurementCache = [''a'' \<mapsto> 55, ''b'' \<mapsto> 70]\<rparr>"]
  from inst p have b: "st_measurementCache (fst (measureElement
        \<lparr>itemsCount = 3, itemHeight = None, estimateItemHeight = Some (\<lambda>i. 40),
         getItemKey = (\<lambda>i. if i = 0 then ''a'' else if i = 1 then ''b'' else ''c''),
         overscan = None, scrollingDelay = None, getScrollElement = None\<rparr>
        (Some \<lparr>dataIndex = Some ''1'', rectHeight = 80\<rparr>)
        \<lparr>st_scrollTop = 0, st_listHeight = 600, st_isScrolling = False,
         st_measurementCache = [''a'' \<mapsto> 55, ''b'' \<mapsto> 70]\<rparr>)) ''b'' = Some 80"
    by simp
  from inst p have "\<forall>k'. k' \<noteq> ''b'' \<longrightarrow> st_measurementCache (fst (measureElement
        \<lparr>itemsCount = 3, itemHeight = None, estimateItemHeight = Some (\<lambda>i. 40),
         getItemKey = (\<lambda>i. if i = 0 then ''a'' else if i = 1 then ''b'' else ''c''),
         overscan = None, scrollingDelay = None, getScrollElement = None\<rparr>
        (Some \<lparr>dataIndex = Some ''1'', rectHeight = 80\<rparr>)
        \<lparr>st_scrollTop = 0, st_listHeight = 600, st_isScrolling = False,
         st_measurementCache = [''a'' \<mapsto> 55, ''b'' \<mapsto> 70]\<rparr>)) k'
       = [''a'' \<mapsto> 55, ''b'' \<mapsto> 70] k'"
    by simp
  from this [rule_format, of "''a''"] have a: "st_measurementCache (fst (measureElement
        \<lparr>itemsCount = 3, itemHeight = None, estimateItemHeight = Some (\<lambda>i. 40),
         getItemKey = (\<lambda>i. if i = 0 then ''a'' else if i = 1 then ''b'' else ''c''),
         overscan = None, scrollingDelay = None, getScrollElement = None\<rparr>
        (Some \<lparr>dataIndex = Some ''1'', rectHeight = 80\<rparr>)
        \<lparr>st_scrollTop = 0, st_listHeight = 600, st_isScrolling = False,
         st_measurementCache = [''a'' \<mapsto> 55, ''b'' \<mapsto> 70]\<rparr>)) ''a'' = Some 55"
    by simp
  from p a b show ?thesis by simp
qed

end
